theory Spec2Isabelle
  imports Complex_Main
begin

section \<open>Python values\<close>

text \<open>
  The handler receives a JSON event and the Bedrock client returns nested dictionaries, all
  typed \<^verbatim>\<open>Any\<close> in the source. They are modelled by one datatype of Python values:
  \<^verbatim>\<open>None\<close>, booleans, unbounded integers, strings, lists and dictionaries with string keys.
  A dictionary is an association list in insertion order and is read with \<^const>\<open>map_of\<close>
  (a Python dictionary never holds a key twice). A string is a \<^typ>\<open>string\<close> whose
  characters stand for the code points 0 to 255. Floats are left out.
\<close>

datatype pyval =
    PNone
  | PBool bool
  | PInt int
  | PStr string
  | PList "pyval list"
  | PDict "(string \<times> pyval) list"

text \<open>Exceptions are the instances of Python's \<^verbatim>\<open>Exception\<close>, the class the handlers of the
  source name (an exit of the interpreter, such as \<^verbatim>\<open>SystemExit\<close>, is not one of them).
  \<open>KeyError\<close> carries the missing key, the others the text that \<^verbatim>\<open>str(e)\<close> gives.\<close>

datatype exn =
    ClientError string
  | KeyError string
  | TypeError string
  | AttributeError string
  | OtherException string

fun type_name :: "pyval \<Rightarrow> string" where
  "type_name PNone = ''NoneType''"
| "type_name (PBool _) = ''bool''"
| "type_name (PInt _) = ''int''"
| "type_name (PStr _) = ''str''"
| "type_name (PList _) = ''list''"
| "type_name (PDict _) = ''dict''"

subsection \<open>Formatting: \<^verbatim>\<open>str\<close>, \<^verbatim>\<open>repr\<close> and \<^verbatim>\<open>json.dumps\<close>\<close>

definition hex_digits :: string where
  "hex_digits = ''0123456789abcdef''"

text \<open>Two lower-case hexadecimal digits of a code point below 256.\<close>

definition hex2 :: "nat \<Rightarrow> string" where
  "hex2 n = [hex_digits ! (n div 16), hex_digits ! (n mod 16)]"

function dec_nat :: "nat \<Rightarrow> string" where
  "dec_nat n =
     (if n < 10 then [hex_digits ! n] else dec_nat (n div 10) @ [hex_digits ! (n mod 10)])"
  by pat_completeness auto
termination
  by (relation "measure id") auto

declare dec_nat.simps [simp del]

definition dec_int :: "int \<Rightarrow> string" where
  "dec_int i = (if i < 0 then ''-'' @ dec_nat (nat (- i)) else dec_nat (nat i))"

text \<open>\<^verbatim>\<open>sep.join(xs)\<close>\<close>

fun join :: "string \<Rightarrow> string list \<Rightarrow> string" where
  "join sep [] = []"
| "join sep [x] = x"
| "join sep (x # y # ys) = x @ sep @ join sep (y # ys)"

text \<open>\<^verbatim>\<open>str.isprintable\<close> on one code point below 256: the controls, the no-break space
  (160) and the soft hyphen (173) are not printable.\<close>

definition is_printable :: "char \<Rightarrow> bool" where
  "is_printable c = (let n = (of_char c :: nat) in (32 \<le> n \<and> n < 127) \<or> (161 \<le> n \<and> n \<noteq> 173))"

definition repr_char :: "char \<Rightarrow> char \<Rightarrow> string" where
  "repr_char q c =
     (if c = q \<or> c = CHR 0x5C then [CHR 0x5C, c]
      else if c = CHR 0x09 then [CHR 0x5C, CHR ''t'']
      else if c = CHR 0x0A then [CHR 0x5C, CHR ''n'']
      else if c = CHR 0x0D then [CHR 0x5C, CHR ''r'']
      else if is_printable c then [c]
      else [CHR 0x5C, CHR ''x''] @ hex2 (of_char c))"

text \<open>\<^verbatim>\<open>repr\<close> of a string: single quotes, unless the string holds a single quote and no
  double quote.\<close>

definition repr_str :: "string \<Rightarrow> string" where
  "repr_str s =
     (let q = (if CHR 0x27 \<in> set s \<and> CHR 0x22 \<notin> set s then CHR 0x22 else CHR 0x27)
      in [q] @ concat (map (repr_char q) s) @ [q])"

primrec py_repr :: "pyval \<Rightarrow> string" where
  "py_repr PNone = ''None''"
| "py_repr (PBool b) = (if b then ''True'' else ''False'')"
| "py_repr (PInt i) = dec_int i"
| "py_repr (PStr s) = repr_str s"
| "py_repr (PList xs) = ''['' @ join '', '' (map py_repr xs) @ '']''"
| "py_repr (PDict kvs) =
     ''{'' @ join '', '' (map (\<lambda>kv. repr_str (fst kv) @ '': '' @ snd kv) (map (map_prod id py_repr) kvs)) @ ''}''"

text \<open>What an f-string writes for \<^verbatim>\<open>{v}\<close>: the string itself, \<^verbatim>\<open>repr\<close> for the other values.\<close>

definition py_str :: "pyval \<Rightarrow> string" where
  "py_str v = (case v of PStr s \<Rightarrow> s | _ \<Rightarrow> py_repr v)"

fun str_exn :: "exn \<Rightarrow> string" where
  "str_exn (ClientError d) = d"
| "str_exn (KeyError k) = repr_str k"
| "str_exn (TypeError d) = d"
| "str_exn (AttributeError d) = d"
| "str_exn (OtherException d) = d"

text \<open>The string encoder of \<^verbatim>\<open>json.dumps\<close> with its default \<^verbatim>\<open>ensure_ascii=True\<close>.\<close>

definition json_char :: "char \<Rightarrow> string" where
  "json_char c =
     (if c = CHR 0x22 then [CHR 0x5C, CHR 0x22]
      else if c = CHR 0x5C then [CHR 0x5C, CHR 0x5C]
      else if c = CHR 0x0A then [CHR 0x5C, CHR ''n'']
      else if c = CHR 0x0D then [CHR 0x5C, CHR ''r'']
      else if c = CHR 0x09 then [CHR 0x5C, CHR ''t'']
      else if c = CHR 0x08 then [CHR 0x5C, CHR ''b'']
      else if c = CHR 0x0C then [CHR 0x5C, CHR ''f'']
      else if 32 \<le> (of_char c :: nat) \<and> (of_char c :: nat) \<le> 126 then [c]
      else [CHR 0x5C, CHR ''u'', CHR ''0'', CHR ''0''] @ hex2 (of_char c))"

definition encode_basestring_ascii :: "string \<Rightarrow> string" where
  "encode_basestring_ascii s = [CHR 0x22] @ concat (map json_char s) @ [CHR 0x22]"

primrec json_dumps :: "pyval \<Rightarrow> string" where
  "json_dumps PNone = ''null''"
| "json_dumps (PBool b) = (if b then ''true'' else ''false'')"
| "json_dumps (PInt i) = dec_int i"
| "json_dumps (PStr s) = encode_basestring_ascii s"
| "json_dumps (PList xs) = ''['' @ join '', '' (map json_dumps xs) @ '']''"
| "json_dumps (PDict kvs) =
     ''{'' @ join '', '' (map (\<lambda>kv. encode_basestring_ascii (fst kv) @ '': '' @ snd kv)
                              (map (map_prod id json_dumps) kvs)) @ ''}''"


section \<open>Subscripts and iteration\<close>

text \<open>\<^verbatim>\<open>v[k]\<close> with a string key \<open>k\<close>. Only a dictionary holding the key answers; the messages of
  the \<open>TypeError\<close>s are those of CPython 3.11 and later.\<close>

definition py_getitem :: "pyval \<Rightarrow> string \<Rightarrow> exn + pyval" where
  "py_getitem v k =
     (case v of
        PDict kvs \<Rightarrow> (case map_of kvs k of None \<Rightarrow> Inl (KeyError k) | Some x \<Rightarrow> Inr x)
      | PStr _ \<Rightarrow> Inl (TypeError (''string indices must be integers, not '' @ repr_str ''str''))
      | PList _ \<Rightarrow> Inl (TypeError ''list indices must be integers or slices, not str'')
      | _ \<Rightarrow> Inl (TypeError (repr_str (type_name v) @ '' object is not subscriptable'')))"

text \<open>The elements a \<^verbatim>\<open>for\<close> loop sees: the items of a list, the one-character strings of a
  string, the keys of a dictionary; the other values are not iterable.\<close>

definition py_iter :: "pyval \<Rightarrow> exn + pyval list" where
  "py_iter v =
     (case v of
        PList xs \<Rightarrow> Inr xs
      | PStr s \<Rightarrow> Inr (map (\<lambda>c. PStr [c]) s)
      | PDict kvs \<Rightarrow> Inr (map (\<lambda>kv. PStr (fst kv)) kvs)
      | _ \<Rightarrow> Inl (TypeError (repr_str (type_name v) @ '' object is not iterable'')))"

section \<open>The program\<close>

definition CODER_MODEL_ID :: string where
  "CODER_MODEL_ID = ''qwen.qwen3-coder-480b-a35b-v1:0''"

definition PROMPT_CODE_SECTION_DELIMITER :: string where
  "PROMPT_CODE_SECTION_DELIMITER = [CHR 0x0A] @ ''###'' @ [CHR 0x0A]"

subsection \<open>\<^verbatim>\<open>_extract_text\<close>\<close>

text \<open>The generator \<^verbatim>\<open>next((b["text"] for b in content if isinstance(b, dict) and "text" in b), "")\<close>:
  the first block that is a dictionary with the key \<^verbatim>\<open>text\<close> decides, and the default is the
  empty string.\<close>

fun first_text :: "pyval list \<Rightarrow> pyval" where
  "first_text [] = PStr []"
| "first_text (PDict kvs # bs) =
     (case map_of kvs ''text'' of Some t \<Rightarrow> t | None \<Rightarrow> first_text bs)"
| "first_text (_ # bs) = first_text bs"

text \<open>\<^verbatim>\<open>message.get("content", [])\<close> needs a dictionary; anything else has no \<^verbatim>\<open>get\<close>.\<close>

definition extract_text :: "pyval \<Rightarrow> exn + pyval" where
  "extract_text message =
     (case message of
        PDict kvs \<Rightarrow>
          (let content = (case map_of kvs ''content'' of None \<Rightarrow> PList [] | Some c \<Rightarrow> c)
           in case py_iter content of
                Inl e \<Rightarrow> Inl e
              | Inr bs \<Rightarrow> Inr (first_text bs))
      | _ \<Rightarrow> Inl (AttributeError (repr_str (type_name message) @ '' object has no attribute ''
                                  @ repr_str ''get'')))"

subsection \<open>\<^verbatim>\<open>_call_bedrock\<close>\<close>

text \<open>
  One request to the Converse operation, with the keyword arguments of the source. The
  temperature is the decimal literal of the source.
\<close>

record inference_config =
  maxTokens :: int
  temperature :: rat

record request =
  modelId :: string
  system :: "pyval list"
  messages :: "pyval list"
  inferenceConfig :: inference_config

text \<open>
  The client \<^verbatim>\<open>bedrock_runtime\<close> is outside the program. Its behaviour is a parameter: a
  function from the requests received so far (the latest last) to the response of the
  latest one, or to the exception it raises. The world records the requests sent and the
  lines printed.
\<close>

type_synonym bedrock_runtime = "request list \<Rightarrow> exn + pyval"

record world =
  calls :: "request list"
  stdout :: "string list"

definition print :: "string \<Rightarrow> world \<Rightarrow> world" where
  "print line w = w\<lparr>stdout := stdout w @ [line]\<rparr>"

definition converse_request :: "pyval list \<Rightarrow> request" where
  "converse_request msgs =
     \<lparr>modelId = CODER_MODEL_ID,
      system = [PDict [(''text'', PStr ''You are a lead software engineer. Be clear and concise.'')]],
      messages = msgs,
      inferenceConfig = \<lparr>maxTokens = 2048, temperature = 0.2\<rparr>\<rparr>"

definition call_bedrock :: "bedrock_runtime \<Rightarrow> pyval list \<Rightarrow> world \<Rightarrow> (exn + pyval) \<times> world" where
  "call_bedrock client msgs w =
     (let sent = calls w @ [converse_request msgs] in (client sent, w\<lparr>calls := sent\<rparr>))"

subsection \<open>\<^verbatim>\<open>generate_code_using_bedrock\<close>\<close>

definition task_analysis_prompt :: "pyval \<Rightarrow> pyval \<Rightarrow> string" where
  "task_analysis_prompt message code_language =
     ''Analyze the following request and determine the necessary steps to accomplish it in ''
     @ py_str code_language @ '':''
     @ PROMPT_CODE_SECTION_DELIMITER @ py_str message @ PROMPT_CODE_SECTION_DELIMITER
     @ ''Respond only with a numbered list of steps, nothing else.''"

definition code_generation_prompt :: "pyval \<Rightarrow> string" where
  "code_generation_prompt code_language =
     ''Generate the '' @ py_str code_language @ '' code according to the previously defined steps.''
     @ ''Take your time to ensure accuracy and completeness.''
     @ ''Respond only with the generated code, nothing else.''"

text \<open>\<^verbatim>\<open>{"role": "user", "content": [{"text": t}]}\<close>\<close>

definition user_turn :: "string \<Rightarrow> pyval" where
  "user_turn t = PDict [(''role'', PStr ''user''), (''content'', PList [PDict [(''text'', PStr t)]])]"

text \<open>\<^verbatim>\<open>response["output"]["message"]\<close>\<close>

definition output_message :: "pyval \<Rightarrow> exn + pyval" where
  "output_message resp =
     (case py_getitem resp ''output'' of
        Inl e \<Rightarrow> Inl e
      | Inr out \<Rightarrow> py_getitem out ''message'')"

text \<open>The body of the \<^verbatim>\<open>try\<close> block: every exception ends it at once.\<close>

definition generate_try :: "bedrock_runtime \<Rightarrow> pyval \<Rightarrow> pyval \<Rightarrow> world \<Rightarrow> (exn + pyval) \<times> world" where
  "generate_try client message code_language w =
     (let conv = [user_turn (task_analysis_prompt message code_language)] in
      case call_bedrock client conv w of
        (Inl e, w1) \<Rightarrow> (Inl e, w1)
      | (Inr task_decomposition_response, w1) \<Rightarrow>
          (case output_message task_decomposition_response of
             Inl e \<Rightarrow> (Inl e, w1)
           | Inr task_decomposition_text \<Rightarrow>
               (let conv = conv @ [task_decomposition_text];
                    conv = conv @ [user_turn (code_generation_prompt code_language)] in
                case call_bedrock client conv w1 of
                  (Inl e, w2) \<Rightarrow> (Inl e, w2)
                | (Inr code_generation_response, w2) \<Rightarrow>
                    (case output_message code_generation_response of
                       Inl e \<Rightarrow> (Inl e, w2)
                     | Inr code_generation_response_text \<Rightarrow>
                         (extract_text code_generation_response_text, w2)))))"

text \<open>\<^verbatim>\<open>except ClientError as e\<close> prints and raises again; any other exception passes through.\<close>

definition generate_code_using_bedrock ::
    "bedrock_runtime \<Rightarrow> pyval \<Rightarrow> pyval \<Rightarrow> world \<Rightarrow> (exn + pyval) \<times> world" where
  "generate_code_using_bedrock client message code_language w =
     (case generate_try client message code_language w of
        (Inl (ClientError d), w') \<Rightarrow>
          (Inl (ClientError d),
           print (''Error during Bedrock interaction: '' @ str_exn (ClientError d)) w')
      | r \<Rightarrow> r)"

subsection \<open>\<^verbatim>\<open>lambda_handler\<close>\<close>

record response =
  statusCode :: int
  body :: string

type_synonym event = "(string \<times> pyval) list"

text \<open>The body of the \<^verbatim>\<open>try\<close> block. A key is in the event exactly when \<^const>\<open>map_of\<close> finds
  it, and then \<^verbatim>\<open>event[key]\<close> is the value found.\<close>

definition handler_try :: "bedrock_runtime \<Rightarrow> event \<Rightarrow> pyval \<Rightarrow> world \<Rightarrow> (exn + response) \<times> world" where
  "handler_try client event ctx w =
     (case map_of event ''message'' of
        None \<Rightarrow>
          (Inr \<lparr>statusCode = 400,
                body = json_dumps (PDict [(''error'', PStr ''Missing required parameter: message'')])\<rparr>, w)
      | Some message \<Rightarrow>
          (case map_of event ''code_language'' of
             None \<Rightarrow>
               (Inr \<lparr>statusCode = 400,
                     body = json_dumps (PDict [(''error'', PStr ''Missing required parameter: code_language'')])\<rparr>, w)
           | Some code_language \<Rightarrow>
               (case generate_code_using_bedrock client message code_language w of
                  (Inl e, w') \<Rightarrow> (Inl e, w')
                | (Inr generated_code, w') \<Rightarrow>
                    (Inr \<lparr>statusCode = 200,
                          body = json_dumps (PDict [(''code'', generated_code)])\<rparr>, w'))))"

text \<open>\<^verbatim>\<open>except Exception as e\<close>: print, and answer 500 with \<^verbatim>\<open>str(e)\<close>.\<close>

definition lambda_handler :: "bedrock_runtime \<Rightarrow> event \<Rightarrow> pyval \<Rightarrow> world \<Rightarrow> response \<times> world" where
  "lambda_handler client event ctx w =
     (case handler_try client event ctx w of
        (Inr r, w') \<Rightarrow> (r, w')
      | (Inl e, w') \<Rightarrow>
          (\<lparr>statusCode = 500, body = json_dumps (PDict [(''error'', PStr (str_exn e))])\<rparr>,
           print (''Error in lambda_handler: '' @ str_exn e) w'))"

section \<open>Specification vocabulary and test doubles\<close>

text \<open>A text-bearing block, in the words of the specification: a dictionary with the key
  \<^verbatim>\<open>text\<close>.\<close>

definition has_text :: "pyval \<Rightarrow> bool" where
  "has_text b = (case b of PDict kvs \<Rightarrow> map_of kvs ''text'' \<noteq> None | _ \<Rightarrow> False)"

text \<open>A stubbed inference service that answers the \<open>n\<close>-th request with the \<open>n\<close>-th scripted
  outcome.\<close>

definition stub_client :: "(exn + pyval) list \<Rightarrow> bedrock_runtime" where
  "stub_client replies sent =
     (if 0 < length sent \<and> length sent \<le> length replies then replies ! (length sent - 1)
      else Inl (OtherException ''no reply left''))"

text \<open>The shape of a Converse response whose assistant turn holds the given content blocks.\<close>

definition converse_response :: "pyval list \<Rightarrow> pyval" where
  "converse_response blocks =
     PDict [(''output'', PDict [(''message'',
       PDict [(''role'', PStr ''assistant''), (''content'', PList blocks)])])]"

definition empty_world :: world where
  "empty_world = \<lparr>calls = [], stdout = []\<rparr>"

section \<open>Basic facts\<close>

lemma calls_print: "calls (print line w) = calls w"
  by (simp add: print_def)

lemma call_bedrock_eq:
  "call_bedrock client msgs w =
     (client (calls w @ [converse_request msgs]), w\<lparr>calls := calls w @ [converse_request msgs]\<rparr>)"
  by (simp add: call_bedrock_def Let_def)

lemma generate_try_first_raises:
  assumes "client (calls w @ [converse_request [user_turn (task_analysis_prompt message code_language)]]) = Inl e"
  shows "generate_try client message code_language w =
           (Inl e, w\<lparr>calls := calls w @ [converse_request [user_turn (task_analysis_prompt message code_language)]]\<rparr>)"
  using assms by (simp add: generate_try_def call_bedrock_eq Let_def)

lemma generate_try_first_malformed:
  assumes "client (calls w @ [converse_request [user_turn (task_analysis_prompt message code_language)]]) = Inr r1"
      and "output_message r1 = Inl e"
  shows "generate_try client message code_language w =
           (Inl e, w\<lparr>calls := calls w @ [converse_request [user_turn (task_analysis_prompt message code_language)]]\<rparr>)"
  using assms by (simp add: generate_try_def call_bedrock_eq Let_def)

lemma generate_try_second:
  assumes "client (calls w @ [converse_request [user_turn (task_analysis_prompt message code_language)]]) = Inr r1"
      and "output_message r1 = Inr m1"
  shows "generate_try client message code_language w =
           (case client (calls w @
                   [converse_request [user_turn (task_analysis_prompt message code_language)],
                    converse_request [user_turn (task_analysis_prompt message code_language), m1,
                                      user_turn (code_generation_prompt code_language)]]) of
              Inl e \<Rightarrow> Inl e
            | Inr r2 \<Rightarrow> (case output_message r2 of Inl e \<Rightarrow> Inl e | Inr m2 \<Rightarrow> extract_text m2),
            w\<lparr>calls := calls w @
                   [converse_request [user_turn (task_analysis_prompt message code_language)],
                    converse_request [user_turn (task_analysis_prompt message code_language), m1,
                                      user_turn (code_generation_prompt code_language)]]\<rparr>)"
  using assms by (simp add: generate_try_def call_bedrock_eq Let_def split: sum.splits)

lemma generate_fst:
  "fst (generate_code_using_bedrock client message code_language w) =
   fst (generate_try client message code_language w)"
  by (simp add: generate_code_using_bedrock_def split: prod.splits sum.splits exn.splits)

lemma generate_calls:
  "calls (snd (generate_code_using_bedrock client message code_language w)) =
   calls (snd (generate_try client message code_language w))"
  by (simp add: generate_code_using_bedrock_def calls_print split: prod.splits sum.splits exn.splits)

lemma first_text_skip:
  "\<forall>b \<in> set pre. \<not> has_text b \<Longrightarrow> first_text (pre @ bs) = first_text bs"
proof (induction pre)
  case Nil
  show ?case by simp
next
  case (Cons b pre)
  then have "\<not> has_text b" and "first_text (pre @ bs) = first_text bs" by simp_all
  then show ?case by (cases b) (simp_all add: has_text_def split: option.splits)
qed

lemma extract_text_list:
  "map_of kvs ''content'' = Some (PList bs) \<Longrightarrow> extract_text (PDict kvs) = Inr (first_text bs)"
  by (simp add: extract_text_def py_iter_def)

lemma generate_try_first_request:
  "\<exists>rest. calls (snd (generate_try client message code_language w)) =
     calls w @ converse_request [user_turn (task_analysis_prompt message code_language)] # rest"
proof (cases "client (calls w @ [converse_request [user_turn (task_analysis_prompt message code_language)]])")
  case (Inl e)
  then show ?thesis by (simp add: generate_try_first_raises)
next
  case (Inr r1)
  show ?thesis
  proof (cases "output_message r1")
    case (Inl e)
    with Inr show ?thesis by (simp add: generate_try_first_malformed)
  next
    case m1: (Inr m1)
    with Inr show ?thesis by (simp add: generate_try_second)
  qed
qed

lemma lambda_handler_present:
  assumes "map_of event ''message'' = Some message"
      and "map_of event ''code_language'' = Some code_language"
  shows "lambda_handler client event ctx w =
           (case generate_code_using_bedrock client message code_language w of
              (Inl e, w') \<Rightarrow>
                (\<lparr>statusCode = 500, body = json_dumps (PDict [(''error'', PStr (str_exn e))])\<rparr>,
                 print (''Error in lambda_handler: '' @ str_exn e) w')
            | (Inr generated_code, w') \<Rightarrow>
                (\<lparr>statusCode = 200, body = json_dumps (PDict [(''code'', generated_code)])\<rparr>, w'))"
  using assms
  by (simp add: lambda_handler_def handler_try_def split: prod.splits sum.splits)

lemma lambda_handler_calls:
  assumes "map_of event ''message'' = Some message"
      and "map_of event ''code_language'' = Some code_language"
  shows "calls (snd (lambda_handler client event ctx w)) =
         calls (snd (generate_code_using_bedrock client message code_language w))"
  using assms
  by (simp add: lambda_handler_present calls_print split: prod.splits sum.splits)

lemma generate_try_success:
  assumes "fst (generate_try client message code_language w) = Inr code"
  shows "\<exists>r1 m1 r2.
           client (calls w @ [converse_request [user_turn (task_analysis_prompt message code_language)]]) = Inr r1
         \<and> output_message r1 = Inr m1
         \<and> client (calls w @
               [converse_request [user_turn (task_analysis_prompt message code_language)],
                converse_request [user_turn (task_analysis_prompt message code_language), m1,
                                  user_turn (code_generation_prompt code_language)]]) = Inr r2
         \<and> calls (snd (generate_try client message code_language w)) =
             calls w @
               [converse_request [user_turn (task_analysis_prompt message code_language)],
                converse_request [user_turn (task_analysis_prompt message code_language), m1,
                                  user_turn (code_generation_prompt code_language)]]"
proof (cases "client (calls w @ [converse_request [user_turn (task_analysis_prompt message code_language)]])")
  case (Inl e)
  with assms show ?thesis by (simp add: generate_try_first_raises)
next
  case r1: (Inr r1)
  show ?thesis
  proof (cases "output_message r1")
    case (Inl e)
    with r1 assms show ?thesis by (simp add: generate_try_first_malformed)
  next
    case m1: (Inr m1)
    from r1 m1 assms show ?thesis
      by (auto simp: generate_try_second split: sum.splits)
  qed
qed

section \<open>The claims\<close>

text \<open>
  C1. When the first call to the inference service returns a response that holds a reply
  message \<open>m1\<close> under \<^verbatim>\<open>["output"]["message"]\<close>, the generation routine sends exactly two
  requests, whatever the second call does. The first request carries the single user turn
  \<^verbatim>\<open>{"role": "user", "content": [{"text": ...}]}\<close> with the step-decomposition prompt. The
  conversation of the second request has exactly three turns: that same user turn, the
  reply \<open>m1\<close> as the service returned it, and a user turn with the code-generation prompt.
  Both prompts are written out in full.
\<close>

theorem two_calls_second_conversation:
  assumes "client (calls w @ [converse_request [user_turn (task_analysis_prompt message code_language)]]) = Inr r1"
      and "output_message r1 = Inr m1"
  shows "calls (snd (generate_code_using_bedrock client message code_language w)) =
           calls w @
             [\<lparr>modelId = ''qwen.qwen3-coder-480b-a35b-v1:0'',
               system = [PDict [(''text'', PStr ''You are a lead software engineer. Be clear and concise.'')]],
               messages =
                 [PDict [(''role'', PStr ''user''),
                         (''content'', PList [PDict [(''text'', PStr
                            (''Analyze the following request and determine the necessary steps to accomplish it in ''
                             @ py_str code_language @ '':''
                             @ [CHR 0x0A, CHR ''#'', CHR ''#'', CHR ''#'', CHR 0x0A]
                             @ py_str message
                             @ [CHR 0x0A, CHR ''#'', CHR ''#'', CHR ''#'', CHR 0x0A]
                             @ ''Respond only with a numbered list of steps, nothing else.''))]])]],
               inferenceConfig = \<lparr>maxTokens = 2048, temperature = 0.2\<rparr>\<rparr>,
              \<lparr>modelId = ''qwen.qwen3-coder-480b-a35b-v1:0'',
               system = [PDict [(''text'', PStr ''You are a lead software engineer. Be clear and concise.'')]],
               messages =
                 [PDict [(''role'', PStr ''user''),
                         (''content'', PList [PDict [(''text'', PStr
                            (''Analyze the following request and determine the necessary steps to accomplish it in ''
                             @ py_str code_language @ '':''
                             @ [CHR 0x0A, CHR ''#'', CHR ''#'', CHR ''#'', CHR 0x0A]
                             @ py_str message
                             @ [CHR 0x0A, CHR ''#'', CHR ''#'', CHR ''#'', CHR 0x0A]
                             @ ''Respond only with a numbered list of steps, nothing else.''))]])],
                  m1,
                  PDict [(''role'', PStr ''user''),
                         (''content'', PList [PDict [(''text'', PStr
                            (''Generate the '' @ py_str code_language
                             @ '' code according to the previously defined steps.''
                             @ ''Take your time to ensure accuracy and completeness.''
                             @ ''Respond only with the generated code, nothing else.''))]])]],
               inferenceConfig = \<lparr>maxTokens = 2048, temperature = 0.2\<rparr>\<rparr>]"
proof -
  have "calls (snd (generate_code_using_bedrock client message code_language w)) =
           calls w @
             [converse_request [user_turn (task_analysis_prompt message code_language)],
              converse_request [user_turn (task_analysis_prompt message code_language), m1,
                                user_turn (code_generation_prompt code_language)]]"
    using assms by (simp add: generate_calls generate_try_second)
  then show ?thesis
    by (simp add: converse_request_def user_turn_def task_analysis_prompt_def
                  code_generation_prompt_def CODER_MODEL_ID_def PROMPT_CODE_SECTION_DELIMITER_def)
qed

theorem two_calls_second_conversation_witness:
  "stub_client [Inr (converse_response [PDict [(''text'', PStr ''1. Walk the string backwards.'')]]),
                Inl (ClientError ''throttled'')]
     (calls empty_world @
        [converse_request [user_turn (task_analysis_prompt (PStr ''reverse a string'') (PStr ''Python''))]])
     = Inr (converse_response [PDict [(''text'', PStr ''1. Walk the string backwards.'')]])
   \<and> output_message (converse_response [PDict [(''text'', PStr ''1. Walk the string backwards.'')]])
     = Inr (PDict [(''role'', PStr ''assistant''),
                   (''content'', PList [PDict [(''text'', PStr ''1. Walk the string backwards.'')]])])
   \<and> map messages
         (calls (snd (generate_code_using_bedrock
            (stub_client [Inr (converse_response [PDict [(''text'', PStr ''1. Walk the string backwards.'')]]),
                          Inl (ClientError ''throttled'')])
            (PStr ''reverse a string'') (PStr ''Python'') empty_world)))
     = [[PDict [(''role'', PStr ''user''),
                (''content'', PList [PDict [(''text'', PStr
                   (''Analyze the following request and determine the necessary steps to accomplish it in Python:''
                    @ [CHR 0x0A] @ ''###'' @ [CHR 0x0A] @ ''reverse a string'' @ [CHR 0x0A] @ ''###'' @ [CHR 0x0A]
                    @ ''Respond only with a numbered list of steps, nothing else.''))]])]],
        [PDict [(''role'', PStr ''user''),
                (''content'', PList [PDict [(''text'', PStr
                   (''Analyze the following request and determine the necessary steps to accomplish it in Python:''
                    @ [CHR 0x0A] @ ''###'' @ [CHR 0x0A] @ ''reverse a string'' @ [CHR 0x0A] @ ''###'' @ [CHR 0x0A]
                    @ ''Respond only with a numbered list of steps, nothing else.''))]])],
         PDict [(''role'', PStr ''assistant''),
                (''content'', PList [PDict [(''text'', PStr ''1. Walk the string backwards.'')]])],
         PDict [(''role'', PStr ''user''),
                (''content'', PList [PDict [(''text'', PStr
                   ''Generate the Python code according to the previously defined steps.Take your time to ensure accuracy and completeness.Respond only with the generated code, nothing else.'')]])]]]"
proof -
  have h1: "stub_client [Inr (converse_response [PDict [(''text'', PStr ''1. Walk the string backwards.'')]]),
                Inl (ClientError ''throttled'')]
     (calls empty_world @
        [converse_request [user_turn (task_analysis_prompt (PStr ''reverse a string'') (PStr ''Python''))]])
     = Inr (converse_response [PDict [(''text'', PStr ''1. Walk the string backwards.'')]])"
    by (simp add: stub_client_def empty_world_def)
  have h2: "output_message (converse_response [PDict [(''text'', PStr ''1. Walk the string backwards.'')]])
     = Inr (PDict [(''role'', PStr ''assistant''),
                   (''content'', PList [PDict [(''text'', PStr ''1. Walk the string backwards.'')]])])"
    by (simp add: output_message_def converse_response_def py_getitem_def)
  show ?thesis
    using h1 h2
      two_calls_second_conversation
        [where client = "stub_client [Inr (converse_response [PDict [(''text'', PStr ''1. Walk the string backwards.'')]]),
                                      Inl (ClientError ''throttled'')]"
           and w = empty_world and message = "PStr ''reverse a string''" and code_language = "PStr ''Python''"
           and ?r1.0 = "converse_response [PDict [(''text'', PStr ''1. Walk the string backwards.'')]]"
           and ?m1.0 = "PDict [(''role'', PStr ''assistant''),
                               (''content'', PList [PDict [(''text'', PStr ''1. Walk the string backwards.'')]])]"]
    by (simp add: empty_world_def py_str_def)
qed

text \<open>
  C2. An event without the key \<^verbatim>\<open>message\<close> is answered with status 400 and the body
  \<^verbatim>\<open>{"error": "Missing required parameter: message"}\<close>; the world is left as it was, so no
  request reaches the inference service.
\<close>

theorem missing_message_400:
  assumes "map_of event ''message'' = None"
  shows "lambda_handler client event ctx w =
           (\<lparr>statusCode = 400, body = ''{\"error\": \"Missing required parameter: message\"}''\<rparr>, w)"
  using assms
  by (simp add: lambda_handler_def handler_try_def encode_basestring_ascii_def json_char_def)

theorem missing_message_400_witness:
  "map_of [(''code_language'', PStr ''Python'')] ''message'' = None \<and>
   lambda_handler (stub_client []) [(''code_language'', PStr ''Python'')] PNone empty_world =
     (\<lparr>statusCode = 400, body = ''{\"error\": \"Missing required parameter: message\"}''\<rparr>, empty_world)"
  using missing_message_400 [of "[(''code_language'', PStr ''Python'')]" "stub_client []" PNone empty_world]
  by simp

text \<open>
  C3, as stated, fails: the handler tests \<^verbatim>\<open>message\<close> first, so the empty event, which lacks
  \<^verbatim>\<open>code_language\<close> too, is answered with the error that names \<^verbatim>\<open>message\<close>.
\<close>

theorem missing_code_language_counterexample:
  "map_of ([] :: event) ''code_language'' = None \<and>
   body (fst (lambda_handler (stub_client []) [] PNone empty_world)) =
     ''{\"error\": \"Missing required parameter: message\"}'' \<and>
   body (fst (lambda_handler (stub_client []) [] PNone empty_world)) \<noteq>
     ''{\"error\": \"Missing required parameter: code_language\"}''"
  by (simp add: lambda_handler_def handler_try_def encode_basestring_ascii_def json_char_def)

text \<open>
  C3, amended. An event without the key \<^verbatim>\<open>code_language\<close> is answered with status 400 and
  the world is left as it was. The body is
  \<^verbatim>\<open>{"error": "Missing required parameter: code_language"}\<close> when the event holds the key
  \<^verbatim>\<open>message\<close>, and \<^verbatim>\<open>{"error": "Missing required parameter: message"}\<close> when it lacks that
  key as well.
\<close>

theorem missing_code_language_400:
  assumes "map_of event ''code_language'' = None"
  shows "lambda_handler client event ctx w =
           (\<lparr>statusCode = 400,
             body = (if map_of event ''message'' = None
                     then ''{\"error\": \"Missing required parameter: message\"}''
                     else ''{\"error\": \"Missing required parameter: code_language\"}'')\<rparr>, w)"
  using assms
  by (simp add: lambda_handler_def handler_try_def encode_basestring_ascii_def json_char_def
           split: option.splits)

theorem missing_code_language_400_witness:
  "map_of [(''message'', PStr ''reverse a string'')] ''code_language'' = None \<and>
   lambda_handler (stub_client []) [(''message'', PStr ''reverse a string'')] PNone empty_world =
     (\<lparr>statusCode = 400, body = ''{\"error\": \"Missing required parameter: code_language\"}''\<rparr>,
      empty_world)"
  using missing_code_language_400 [of "[(''message'', PStr ''reverse a string'')]" "stub_client []" PNone empty_world]
  by simp

text \<open>
  C4. For a reply message whose content is a list of blocks, the helper returns the value
  under \<^verbatim>\<open>text\<close> of the first block that has one, whatever follows it, and the empty string
  when no block of the list has one (in particular when the list is empty).
\<close>

theorem extract_text_first_block:
  assumes "map_of kvs ''content'' = Some (PList bs)"
  shows "(bs = pre @ PDict kv # post \<and> (\<forall>b \<in> set pre. \<not> has_text b) \<and> map_of kv ''text'' = Some t
            \<longrightarrow> extract_text (PDict kvs) = Inr t)
       \<and> ((\<forall>b \<in> set bs. \<not> has_text b) \<longrightarrow> extract_text (PDict kvs) = Inr (PStr ''''))"
proof (intro conjI impI)
  assume h: "bs = pre @ PDict kv # post \<and> (\<forall>b \<in> set pre. \<not> has_text b) \<and> map_of kv ''text'' = Some t"
  then have "first_text bs = first_text (PDict kv # post)"
    by (simp add: first_text_skip)
  with h have "first_text bs = t" by simp
  with assms show "extract_text (PDict kvs) = Inr t"
    by (simp add: extract_text_list)
next
  assume "\<forall>b \<in> set bs. \<not> has_text b"
  then have "first_text (bs @ []) = first_text []"
    by (rule first_text_skip)
  with assms show "extract_text (PDict kvs) = Inr (PStr '''')"
    by (simp add: extract_text_list)
qed

theorem extract_text_first_block_witness:
  "extract_text (PDict [(''role'', PStr ''assistant''),
                        (''content'', PList [PStr ''text'', PDict [(''image'', PNone)],
                                             PDict [(''text'', PStr ''first'')],
                                             PDict [(''text'', PStr ''second'')]])])
     = Inr (PStr ''first'')
   \<and> extract_text (PDict [(''content'', PList [])]) = Inr (PStr '''')
   \<and> extract_text (PDict [(''content'', PList [PNone, PDict [(''image'', PNone)]])]) = Inr (PStr '''')"
  using extract_text_first_block
          [of "[(''role'', PStr ''assistant''),
                (''content'', PList [PStr ''text'', PDict [(''image'', PNone)],
                                     PDict [(''text'', PStr ''first'')],
                                     PDict [(''text'', PStr ''second'')]])]"
              "[PStr ''text'', PDict [(''image'', PNone)], PDict [(''text'', PStr ''first'')],
                PDict [(''text'', PStr ''second'')]]"
              "[PStr ''text'', PDict [(''image'', PNone)]]"
              "[(''text'', PStr ''first'')]"
              "[PDict [(''text'', PStr ''second'')]]"
              "PStr ''first''"]
        extract_text_first_block [of "[(''content'', PList [])]" "[]"]
        extract_text_first_block
          [of "[(''content'', PList [PNone, PDict [(''image'', PNone)]])]"
              "[PNone, PDict [(''image'', PNone)]]"]
  by (simp add: has_text_def)

text \<open>
  C5. On a message whose content is a list, of any blocks at all, the helper returns: it
  has a result and raises nothing.
\<close>

theorem extract_text_total:
  assumes "map_of kvs ''content'' = Some (PList bs)"
  shows "\<exists>v. extract_text (PDict kvs) = Inr v"
  using assms by (simp add: extract_text_list)

theorem extract_text_total_witness:
  "map_of [(''content'', PList [PNone, PInt 3, PStr ''text'', PList [PStr ''text''], PDict []])] ''content''
     = Some (PList [PNone, PInt 3, PStr ''text'', PList [PStr ''text''], PDict []])
   \<and> (\<exists>v. extract_text
             (PDict [(''content'', PList [PNone, PInt 3, PStr ''text'', PList [PStr ''text''], PDict []])])
           = Inr v)"
  using extract_text_total
          [of "[(''content'', PList [PNone, PInt 3, PStr ''text'', PList [PStr ''text''], PDict []])]"
              "[PNone, PInt 3, PStr ''text'', PList [PStr ''text''], PDict []]"]
  by simp

text \<open>
  C6. For an event with both fields: when the first call to the inference service raises
  \<open>e\<close>, the generation routine ends with \<open>e\<close> after that one request, no second request is
  sent, and the handler answers with status 500. In every case the outcome is one of two:
  both calls returned and the handler answers 200 with the code that the routine returned,
  or the routine raised and the handler answers 500 with the description of the exception.
\<close>

theorem first_failure_no_second_call:
  assumes "map_of event ''message'' = Some message"
      and "map_of event ''code_language'' = Some code_language"
  shows "(client (calls w @ [converse_request [user_turn (task_analysis_prompt message code_language)]]) = Inl e
            \<longrightarrow> fst (generate_code_using_bedrock client message code_language w) = Inl e
              \<and> calls (snd (generate_code_using_bedrock client message code_language w)) =
                  calls w @ [converse_request [user_turn (task_analysis_prompt message code_language)]]
              \<and> statusCode (fst (lambda_handler client event ctx w)) = 500
              \<and> calls (snd (lambda_handler client event ctx w)) =
                  calls w @ [converse_request [user_turn (task_analysis_prompt message code_language)]])
       \<and> ((\<exists>r1 m1 r2 code.
              client (calls w @ [converse_request [user_turn (task_analysis_prompt message code_language)]]) = Inr r1
            \<and> output_message r1 = Inr m1
            \<and> client (calls w @
                  [converse_request [user_turn (task_analysis_prompt message code_language)],
                   converse_request [user_turn (task_analysis_prompt message code_language), m1,
                                     user_turn (code_generation_prompt code_language)]]) = Inr r2
            \<and> fst (generate_code_using_bedrock client message code_language w) = Inr code
            \<and> fst (lambda_handler client event ctx w) =
                \<lparr>statusCode = 200, body = json_dumps (PDict [(''code'', code)])\<rparr>)
          \<or> (\<exists>e'. fst (generate_code_using_bedrock client message code_language w) = Inl e'
            \<and> fst (lambda_handler client event ctx w) =
                \<lparr>statusCode = 500, body = json_dumps (PDict [(''error'', PStr (str_exn e'))])\<rparr>))"
proof (intro conjI impI)
  assume raised: "client (calls w @ [converse_request [user_turn (task_analysis_prompt message code_language)]]) = Inl e"
  then show g: "fst (generate_code_using_bedrock client message code_language w) = Inl e"
    by (simp add: generate_fst generate_try_first_raises)
  from raised
  show c: "calls (snd (generate_code_using_bedrock client message code_language w)) =
             calls w @ [converse_request [user_turn (task_analysis_prompt message code_language)]]"
    by (simp add: generate_calls generate_try_first_raises)
  obtain r w' where "generate_code_using_bedrock client message code_language w = (r, w')"
    by (cases "generate_code_using_bedrock client message code_language w")
  with g assms show "statusCode (fst (lambda_handler client event ctx w)) = 500"
    by (simp add: lambda_handler_present)
  from c assms
  show "calls (snd (lambda_handler client event ctx w)) =
          calls w @ [converse_request [user_turn (task_analysis_prompt message code_language)]]"
    by (simp add: lambda_handler_calls)
next
  obtain r w' where g: "generate_code_using_bedrock client message code_language w = (r, w')"
    by (cases "generate_code_using_bedrock client message code_language w")
  show "(\<exists>r1 m1 r2 code.
              client (calls w @ [converse_request [user_turn (task_analysis_prompt message code_language)]]) = Inr r1
            \<and> output_message r1 = Inr m1
            \<and> client (calls w @
                  [converse_request [user_turn (task_analysis_prompt message code_language)],
                   converse_request [user_turn (task_analysis_prompt message code_language), m1,
                                     user_turn (code_generation_prompt code_language)]]) = Inr r2
            \<and> fst (generate_code_using_bedrock client message code_language w) = Inr code
            \<and> fst (lambda_handler client event ctx w) =
                \<lparr>statusCode = 200, body = json_dumps (PDict [(''code'', code)])\<rparr>)
          \<or> (\<exists>e'. fst (generate_code_using_bedrock client message code_language w) = Inl e'
            \<and> fst (lambda_handler client event ctx w) =
                \<lparr>statusCode = 500, body = json_dumps (PDict [(''error'', PStr (str_exn e'))])\<rparr>)"
  proof (cases r)
    case (Inl e')
    with g assms have "fst (generate_code_using_bedrock client message code_language w) = Inl e'
            \<and> fst (lambda_handler client event ctx w) =
                \<lparr>statusCode = 500, body = json_dumps (PDict [(''error'', PStr (str_exn e'))])\<rparr>"
      by (simp add: lambda_handler_present)
    then show ?thesis by blast
  next
    case (Inr code)
    with g have "fst (generate_try client message code_language w) = Inr code"
      by (simp add: generate_fst [symmetric])
    from generate_try_success [OF this] obtain r1 m1 r2 where
      "client (calls w @ [converse_request [user_turn (task_analysis_prompt message code_language)]]) = Inr r1"
      "output_message r1 = Inr m1"
      "client (calls w @
                  [converse_request [user_turn (task_analysis_prompt message code_language)],
                   converse_request [user_turn (task_analysis_prompt message code_language), m1,
                                     user_turn (code_generation_prompt code_language)]]) = Inr r2"
      by blast
    moreover from Inr g assms
    have "fst (generate_code_using_bedrock client message code_language w) = Inr code
            \<and> fst (lambda_handler client event ctx w) =
                \<lparr>statusCode = 200, body = json_dumps (PDict [(''code'', code)])\<rparr>"
      by (simp add: lambda_handler_present)
    ultimately show ?thesis by blast
  qed
qed

theorem first_failure_no_second_call_witness:
  "map_of [(''message'', PStr ''reverse a string''), (''code_language'', PStr ''Python'')] ''message''
     = Some (PStr ''reverse a string'')
   \<and> map_of [(''message'', PStr ''reverse a string''), (''code_language'', PStr ''Python'')] ''code_language''
     = Some (PStr ''Python'')
   \<and> stub_client [Inl (ClientError ''boom'')]
         (calls empty_world @
            [converse_request [user_turn (task_analysis_prompt (PStr ''reverse a string'') (PStr ''Python''))]])
     = Inl (ClientError ''boom'')
   \<and> fst (generate_code_using_bedrock (stub_client [Inl (ClientError ''boom'')])
            (PStr ''reverse a string'') (PStr ''Python'') empty_world) = Inl (ClientError ''boom'')
   \<and> statusCode (fst (lambda_handler (stub_client [Inl (ClientError ''boom'')])
         [(''message'', PStr ''reverse a string''), (''code_language'', PStr ''Python'')] PNone empty_world)) = 500
   \<and> calls (snd (lambda_handler (stub_client [Inl (ClientError ''boom'')])
         [(''message'', PStr ''reverse a string''), (''code_language'', PStr ''Python'')] PNone empty_world))
     = [converse_request [user_turn (task_analysis_prompt (PStr ''reverse a string'') (PStr ''Python''))]]"
proof -
  have h1: "map_of [(''message'', PStr ''reverse a string''), (''code_language'', PStr ''Python'')] ''message''
     = Some (PStr ''reverse a string'')"
    by simp
  have h2: "map_of [(''message'', PStr ''reverse a string''), (''code_language'', PStr ''Python'')] ''code_language''
     = Some (PStr ''Python'')"
    by simp
  have h3: "stub_client [Inl (ClientError ''boom'')]
         (calls empty_world @
            [converse_request [user_turn (task_analysis_prompt (PStr ''reverse a string'') (PStr ''Python''))]])
     = Inl (ClientError ''boom'')"
    by (simp add: stub_client_def empty_world_def)
  have "stub_client [Inl (ClientError ''boom'')]
         (calls empty_world @
            [converse_request [user_turn (task_analysis_prompt (PStr ''reverse a string'') (PStr ''Python''))]])
          = Inl (ClientError ''boom'')
        \<longrightarrow> fst (generate_code_using_bedrock (stub_client [Inl (ClientError ''boom'')])
              (PStr ''reverse a string'') (PStr ''Python'') empty_world) = Inl (ClientError ''boom'')
          \<and> calls (snd (generate_code_using_bedrock (stub_client [Inl (ClientError ''boom'')])
              (PStr ''reverse a string'') (PStr ''Python'') empty_world)) =
              calls empty_world @
                [converse_request [user_turn (task_analysis_prompt (PStr ''reverse a string'') (PStr ''Python''))]]
          \<and> statusCode (fst (lambda_handler (stub_client [Inl (ClientError ''boom'')])
                [(''message'', PStr ''reverse a string''), (''code_language'', PStr ''Python'')] PNone empty_world)) = 500
          \<and> calls (snd (lambda_handler (stub_client [Inl (ClientError ''boom'')])
                [(''message'', PStr ''reverse a string''), (''code_language'', PStr ''Python'')] PNone empty_world)) =
              calls empty_world @
                [converse_request [user_turn (task_analysis_prompt (PStr ''reverse a string'') (PStr ''Python''))]]"
    using first_failure_no_second_call
            [where event = "[(''message'', PStr ''reverse a string''), (''code_language'', PStr ''Python'')]"
               and message = "PStr ''reverse a string''" and code_language = "PStr ''Python''"
               and client = "stub_client [Inl (ClientError ''boom'')]" and w = empty_world
               and e = "ClientError ''boom''" and ctx = PNone, OF h1 h2]
    by (rule conjunct1)
  with h1 h2 h3 show ?thesis
    by (simp add: empty_world_def)
qed

text \<open>
  C7. For an event with both fields, whenever the generation routine raises an exception
  \<open>e\<close>, the handler returns, with status 500 and the body \<^verbatim>\<open>{"error": str(e)}\<close>, after
  printing the failure.
\<close>

theorem failure_becomes_500:
  assumes "map_of event ''message'' = Some message"
      and "map_of event ''code_language'' = Some code_language"
      and "fst (generate_code_using_bedrock client message code_language w) = Inl e"
  shows "fst (lambda_handler client event ctx w) =
           \<lparr>statusCode = 500, body = json_dumps (PDict [(''error'', PStr (str_exn e))])\<rparr>
       \<and> stdout (snd (lambda_handler client event ctx w)) =
           stdout (snd (generate_code_using_bedrock client message code_language w))
             @ [''Error in lambda_handler: '' @ str_exn e]"
proof -
  obtain r w' where g: "generate_code_using_bedrock client message code_language w = (r, w')"
    by (cases "generate_code_using_bedrock client message code_language w")
  with assms(3) have "r = Inl e" by simp
  with g assms(1,2) show ?thesis
    by (simp add: lambda_handler_present print_def)
qed

theorem failure_becomes_500_witness:
  "map_of [(''message'', PStr ''reverse a string''), (''code_language'', PStr ''Python'')] ''message''
     = Some (PStr ''reverse a string'')
   \<and> map_of [(''message'', PStr ''reverse a string''), (''code_language'', PStr ''Python'')] ''code_language''
     = Some (PStr ''Python'')
   \<and> fst (generate_code_using_bedrock (stub_client [Inr PNone])
            (PStr ''reverse a string'') (PStr ''Python'') empty_world)
     = Inl (TypeError '''NoneType' object is not subscriptable'')
   \<and> fst (lambda_handler (stub_client [Inr PNone])
         [(''message'', PStr ''reverse a string''), (''code_language'', PStr ''Python'')] PNone empty_world)
     = \<lparr>statusCode = 500, body = ''{\"error\": \"'NoneType' object is not subscriptable\"}''\<rparr>"
proof -
  have h1: "map_of [(''message'', PStr ''reverse a string''), (''code_language'', PStr ''Python'')] ''message''
     = Some (PStr ''reverse a string'')"
    by simp
  have h2: "map_of [(''message'', PStr ''reverse a string''), (''code_language'', PStr ''Python'')] ''code_language''
     = Some (PStr ''Python'')"
    by simp
  have r: "stub_client [Inr PNone]
         (calls empty_world @
            [converse_request [user_turn (task_analysis_prompt (PStr ''reverse a string'') (PStr ''Python''))]])
     = Inr PNone"
    by (simp add: stub_client_def empty_world_def)
  have o: "output_message PNone = Inl (TypeError '''NoneType' object is not subscriptable'')"
    by (simp add: output_message_def py_getitem_def repr_str_def repr_char_def is_printable_def Let_def)
  have h3: "fst (generate_code_using_bedrock (stub_client [Inr PNone])
            (PStr ''reverse a string'') (PStr ''Python'') empty_world)
     = Inl (TypeError '''NoneType' object is not subscriptable'')"
    using r o by (simp add: generate_fst generate_try_first_malformed)
  have j: "json_dumps (PDict [(''error'', PStr (str_exn (TypeError '''NoneType' object is not subscriptable'')))])
             = ''{\"error\": \"'NoneType' object is not subscriptable\"}''"
    by (simp add: encode_basestring_ascii_def json_char_def)
  show ?thesis
    using h1 h2 h3 j
      failure_becomes_500
        [where event = "[(''message'', PStr ''reverse a string''), (''code_language'', PStr ''Python'')]"
           and message = "PStr ''reverse a string''" and code_language = "PStr ''Python''"
           and client = "stub_client [Inr PNone]" and w = empty_world and ctx = PNone
           and e = "TypeError '''NoneType' object is not subscriptable''", OF h1 h2 h3]
    by simp
qed

text \<open>
  C8. The event \<^verbatim>\<open>{"message": "reverse a string", "code_language": "Python"}\<close>, with a
  service whose first response holds a reply message and whose second response holds a
  reply whose first text block is \<^verbatim>\<open>def reverse(s): return s[::-1]\<close>, is answered with status
  200 and the body \<^verbatim>\<open>{"code": "def reverse(s): return s[::-1]"}\<close>.
\<close>

theorem reverse_a_string_example:
  assumes "client (calls w @
             [converse_request [user_turn (task_analysis_prompt (PStr ''reverse a string'') (PStr ''Python''))]])
           = Inr r1"
      and "output_message r1 = Inr m1"
      and "client (calls w @
             [converse_request [user_turn (task_analysis_prompt (PStr ''reverse a string'') (PStr ''Python''))],
              converse_request [user_turn (task_analysis_prompt (PStr ''reverse a string'') (PStr ''Python'')), m1,
                                user_turn (code_generation_prompt (PStr ''Python''))]])
           = Inr r2"
      and "output_message r2 = Inr (PDict kvs)"
      and "map_of kvs ''content'' = Some (PList bs)"
      and "first_text bs = PStr ''def reverse(s): return s[::-1]''"
  shows "fst (lambda_handler client
                [(''message'', PStr ''reverse a string''), (''code_language'', PStr ''Python'')] ctx w) =
           \<lparr>statusCode = 200, body = ''{\"code\": \"def reverse(s): return s[::-1]\"}''\<rparr>"
proof -
  have "generate_try client (PStr ''reverse a string'') (PStr ''Python'') w =
          (Inr (PStr ''def reverse(s): return s[::-1]''),
           w\<lparr>calls := calls w @
             [converse_request [user_turn (task_analysis_prompt (PStr ''reverse a string'') (PStr ''Python''))],
              converse_request [user_turn (task_analysis_prompt (PStr ''reverse a string'') (PStr ''Python'')), m1,
                                user_turn (code_generation_prompt (PStr ''Python''))]]\<rparr>)"
    using assms by (simp add: generate_try_second extract_text_list)
  then have "generate_code_using_bedrock client (PStr ''reverse a string'') (PStr ''Python'') w =
          (Inr (PStr ''def reverse(s): return s[::-1]''),
           w\<lparr>calls := calls w @
             [converse_request [user_turn (task_analysis_prompt (PStr ''reverse a string'') (PStr ''Python''))],
              converse_request [user_turn (task_analysis_prompt (PStr ''reverse a string'') (PStr ''Python'')), m1,
                                user_turn (code_generation_prompt (PStr ''Python''))]]\<rparr>)"
    by (simp add: generate_code_using_bedrock_def)
  moreover have "json_dumps (PDict [(''code'', PStr ''def reverse(s): return s[::-1]'')]) =
                   ''{\"code\": \"def reverse(s): return s[::-1]\"}''"
    by (simp add: encode_basestring_ascii_def json_char_def)
  ultimately show ?thesis
    by (simp add: lambda_handler_def handler_try_def)
qed

theorem reverse_a_string_example_witness:
  "stub_client
     [Inr (converse_response [PDict [(''text'', PStr ''1. Walk the string backwards.'')]]),
      Inr (converse_response [PDict [(''reasoningContent'', PDict [])],
                              PDict [(''text'', PStr ''def reverse(s): return s[::-1]'')]])]
     (calls empty_world @
        [converse_request [user_turn (task_analysis_prompt (PStr ''reverse a string'') (PStr ''Python''))]])
     = Inr (converse_response [PDict [(''text'', PStr ''1. Walk the string backwards.'')]])
   \<and> first_text [PDict [(''reasoningContent'', PDict [])],
                  PDict [(''text'', PStr ''def reverse(s): return s[::-1]'')]]
     = PStr ''def reverse(s): return s[::-1]''
   \<and> lambda_handler
       (stub_client
         [Inr (converse_response [PDict [(''text'', PStr ''1. Walk the string backwards.'')]]),
          Inr (converse_response [PDict [(''reasoningContent'', PDict [])],
                                  PDict [(''text'', PStr ''def reverse(s): return s[::-1]'')]])])
       [(''message'', PStr ''reverse a string''), (''code_language'', PStr ''Python'')] PNone empty_world
     = (\<lparr>statusCode = 200, body = ''{\"code\": \"def reverse(s): return s[::-1]\"}''\<rparr>,
        \<lparr>calls =
           [converse_request [user_turn (task_analysis_prompt (PStr ''reverse a string'') (PStr ''Python''))],
            converse_request
              [user_turn (task_analysis_prompt (PStr ''reverse a string'') (PStr ''Python'')),
               PDict [(''role'', PStr ''assistant''),
                      (''content'', PList [PDict [(''text'', PStr ''1. Walk the string backwards.'')]])],
               user_turn (code_generation_prompt (PStr ''Python''))]],
          stdout = []\<rparr>)"
proof -
  let ?c = "stub_client
     [Inr (converse_response [PDict [(''text'', PStr ''1. Walk the string backwards.'')]]),
      Inr (converse_response [PDict [(''reasoningContent'', PDict [])],
                              PDict [(''text'', PStr ''def reverse(s): return s[::-1]'')]])]"
  let ?m1 = "PDict [(''role'', PStr ''assistant''),
                    (''content'', PList [PDict [(''text'', PStr ''1. Walk the string backwards.'')]])]"
  let ?kvs = "[(''role'', PStr ''assistant''),
               (''content'', PList [PDict [(''reasoningContent'', PDict [])],
                                    PDict [(''text'', PStr ''def reverse(s): return s[::-1]'')]])]"
  have h1: "?c (calls empty_world @
        [converse_request [user_turn (task_analysis_prompt (PStr ''reverse a string'') (PStr ''Python''))]])
     = Inr (converse_response [PDict [(''text'', PStr ''1. Walk the string backwards.'')]])"
    by (simp add: stub_client_def empty_world_def)
  have h2: "output_message (converse_response [PDict [(''text'', PStr ''1. Walk the string backwards.'')]])
     = Inr ?m1"
    by (simp add: output_message_def converse_response_def py_getitem_def)
  have h3: "?c (calls empty_world @
             [converse_request [user_turn (task_analysis_prompt (PStr ''reverse a string'') (PStr ''Python''))],
              converse_request [user_turn (task_analysis_prompt (PStr ''reverse a string'') (PStr ''Python'')), ?m1,
                                user_turn (code_generation_prompt (PStr ''Python''))]])
           = Inr (converse_response [PDict [(''reasoningContent'', PDict [])],
                              PDict [(''text'', PStr ''def reverse(s): return s[::-1]'')]])"
    by (simp add: stub_client_def empty_world_def)
  have h4: "output_message (converse_response [PDict [(''reasoningContent'', PDict [])],
                              PDict [(''text'', PStr ''def reverse(s): return s[::-1]'')]])
     = Inr (PDict ?kvs)"
    by (simp add: output_message_def converse_response_def py_getitem_def)
  have h5: "map_of ?kvs ''content'' = Some (PList [PDict [(''reasoningContent'', PDict [])],
                                    PDict [(''text'', PStr ''def reverse(s): return s[::-1]'')]])"
    by simp
  have h6: "first_text [PDict [(''reasoningContent'', PDict [])],
                  PDict [(''text'', PStr ''def reverse(s): return s[::-1]'')]]
     = PStr ''def reverse(s): return s[::-1]''"
    by simp
  have st: "fst (lambda_handler ?c
       [(''message'', PStr ''reverse a string''), (''code_language'', PStr ''Python'')] PNone empty_world)
     = \<lparr>statusCode = 200, body = ''{\"code\": \"def reverse(s): return s[::-1]\"}''\<rparr>"
    using h1 h2 h3 h4 h5 h6 by (rule reverse_a_string_example)
  have m: "map_of [(''message'', PStr ''reverse a string''), (''code_language'', PStr ''Python'')] ''message''
     = Some (PStr ''reverse a string'')"
    by simp
  have l: "map_of [(''message'', PStr ''reverse a string''), (''code_language'', PStr ''Python'')] ''code_language''
     = Some (PStr ''Python'')"
    by simp
  have g: "generate_try ?c (PStr ''reverse a string'') (PStr ''Python'') empty_world =
          (Inr (PStr ''def reverse(s): return s[::-1]''),
           empty_world\<lparr>calls := calls empty_world @
             [converse_request [user_turn (task_analysis_prompt (PStr ''reverse a string'') (PStr ''Python''))],
              converse_request [user_turn (task_analysis_prompt (PStr ''reverse a string'') (PStr ''Python'')), ?m1,
                                user_turn (code_generation_prompt (PStr ''Python''))]]\<rparr>)"
    using h1 h2 h3 h4 h5 h6 by (simp add: generate_try_second extract_text_list)
  have sn: "snd (lambda_handler ?c
       [(''message'', PStr ''reverse a string''), (''code_language'', PStr ''Python'')] PNone empty_world)
     = \<lparr>calls =
           [converse_request [user_turn (task_analysis_prompt (PStr ''reverse a string'') (PStr ''Python''))],
            converse_request
              [user_turn (task_analysis_prompt (PStr ''reverse a string'') (PStr ''Python'')), ?m1,
               user_turn (code_generation_prompt (PStr ''Python''))]],
          stdout = []\<rparr>"
    using g by (simp add: lambda_handler_present [OF m l] generate_code_using_bedrock_def empty_world_def)
  from st sn h1 h6 show ?thesis
    by (simp add: prod_eq_iff)
qed

text \<open>
  C9. For every request text and target language, the first request sent carries one user
  turn whose text asks for the steps to accomplish the request in the target language,
  holds the request text between two occurrences of the sentinel (a line feed, three hash
  signs, a line feed), and ends with the instruction to respond only with a numbered list
  of steps.
\<close>

theorem first_prompt_delimited:
  "\<exists>rest. calls (snd (generate_code_using_bedrock client (PStr request_text) (PStr language) w)) =
     calls w @
       \<lparr>modelId = ''qwen.qwen3-coder-480b-a35b-v1:0'',
         system = [PDict [(''text'', PStr ''You are a lead software engineer. Be clear and concise.'')]],
         messages =
           [PDict [(''role'', PStr ''user''),
                   (''content'', PList [PDict [(''text'', PStr
                      (''Analyze the following request and determine the necessary steps to accomplish it in ''
                       @ language @ '':''
                       @ [CHR 0x0A, CHR ''#'', CHR ''#'', CHR ''#'', CHR 0x0A]
                       @ request_text
                       @ [CHR 0x0A, CHR ''#'', CHR ''#'', CHR ''#'', CHR 0x0A]
                       @ ''Respond only with a numbered list of steps, nothing else.''))]])]],
         inferenceConfig = \<lparr>maxTokens = 2048, temperature = 0.2\<rparr>\<rparr> # rest"
proof -
  have "converse_request [user_turn (task_analysis_prompt (PStr request_text) (PStr language))] =
       \<lparr>modelId = ''qwen.qwen3-coder-480b-a35b-v1:0'',
         system = [PDict [(''text'', PStr ''You are a lead software engineer. Be clear and concise.'')]],
         messages =
           [PDict [(''role'', PStr ''user''),
                   (''content'', PList [PDict [(''text'', PStr
                      (''Analyze the following request and determine the necessary steps to accomplish it in ''
                       @ language @ '':''
                       @ [CHR 0x0A, CHR ''#'', CHR ''#'', CHR ''#'', CHR 0x0A]
                       @ request_text
                       @ [CHR 0x0A, CHR ''#'', CHR ''#'', CHR ''#'', CHR 0x0A]
                       @ ''Respond only with a numbered list of steps, nothing else.''))]])]],
         inferenceConfig = \<lparr>maxTokens = 2048, temperature = 0.2\<rparr>\<rparr>"
    by (simp add: converse_request_def user_turn_def task_analysis_prompt_def py_str_def
                  CODER_MODEL_ID_def PROMPT_CODE_SECTION_DELIMITER_def)
  with generate_try_first_request [of client "PStr request_text" "PStr language" w]
  show ?thesis by (simp only: generate_calls)
qed

text \<open>
  C10. When both keys are present, whatever their values, the handler does not answer 400:
  its result is the wrapped result of the generation routine run on exactly the two values
  of the event, and the first request sent carries the prompt built from them.
\<close>

theorem validation_tests_presence_only:
  assumes "map_of event ''message'' = Some message"
      and "map_of event ''code_language'' = Some code_language"
  shows "lambda_handler client event ctx w =
           (case generate_code_using_bedrock client message code_language w of
              (Inl e, w') \<Rightarrow>
                (\<lparr>statusCode = 500, body = json_dumps (PDict [(''error'', PStr (str_exn e))])\<rparr>,
                 print (''Error in lambda_handler: '' @ str_exn e) w')
            | (Inr generated_code, w') \<Rightarrow>
                (\<lparr>statusCode = 200, body = json_dumps (PDict [(''code'', generated_code)])\<rparr>, w'))
       \<and> statusCode (fst (lambda_handler client event ctx w)) \<noteq> 400
       \<and> (\<exists>rest. calls (snd (lambda_handler client event ctx w)) =
             calls w @ converse_request [user_turn (task_analysis_prompt message code_language)] # rest)"
proof (intro conjI)
  show "lambda_handler client event ctx w =
           (case generate_code_using_bedrock client message code_language w of
              (Inl e, w') \<Rightarrow>
                (\<lparr>statusCode = 500, body = json_dumps (PDict [(''error'', PStr (str_exn e))])\<rparr>,
                 print (''Error in lambda_handler: '' @ str_exn e) w')
            | (Inr generated_code, w') \<Rightarrow>
                (\<lparr>statusCode = 200, body = json_dumps (PDict [(''code'', generated_code)])\<rparr>, w'))"
    using assms by (rule lambda_handler_present)
  show "statusCode (fst (lambda_handler client event ctx w)) \<noteq> 400"
    using assms by (simp add: lambda_handler_present split: prod.splits sum.splits)
  show "\<exists>rest. calls (snd (lambda_handler client event ctx w)) =
             calls w @ converse_request [user_turn (task_analysis_prompt message code_language)] # rest"
    using assms generate_try_first_request [of client message code_language w]
    by (simp only: lambda_handler_calls generate_calls)
qed

theorem validation_tests_presence_only_witness:
  "map_of [(''message'', PNone), (''code_language'', PStr '''')] ''message'' = Some PNone
   \<and> map_of [(''message'', PNone), (''code_language'', PStr '''')] ''code_language'' = Some (PStr '''')
   \<and> statusCode (fst (lambda_handler (stub_client []) [(''message'', PNone), (''code_language'', PStr '''')]
                        PNone empty_world)) \<noteq> 400
   \<and> (\<exists>rest. calls (snd (lambda_handler (stub_client []) [(''message'', PNone), (''code_language'', PStr '''')]
                              PNone empty_world)) =
         calls empty_world @ converse_request [user_turn (task_analysis_prompt PNone (PStr ''''))] # rest)"
proof -
  have h1: "map_of [(''message'', PNone), (''code_language'', PStr '''')] ''message'' = Some PNone"
    by simp
  have h2: "map_of [(''message'', PNone), (''code_language'', PStr '''')] ''code_language'' = Some (PStr '''')"
    by simp
  show ?thesis
    using h1 h2
      validation_tests_presence_only
        [where event = "[(''message'', PNone), (''code_language'', PStr '''')]"
           and message = PNone and code_language = "PStr ''''"
           and client = "stub_client []" and w = empty_world and ctx = PNone, OF h1 h2]
    by blast
qed

end
